theory Spec2Isabelle
  imports Main "HOL-Library.AList"
begin

section \<open>The telemetry reporter of cdktf-cli (lib/checkpoint.ts)\<close>

text \<open>
  The module builds a report record, fills in defaults, reads or creates two identity
  files, serialises the record and sends it with one HTTPS POST. Everything the code
  takes from the host (the file system, Node's module cache, the UUID generator, the
  clock, the environment, the CI probe, the network) is a field of the record
  \<open>world\<close>; every function of the module takes the world and returns the new one.
\<close>

subsection \<open>JavaScript values\<close>

text \<open>
  A value read from a JSON file. Numbers are integers here: fractions do not occur in the
  identity files the module writes. An object is the list of its own properties, in
  insertion order.
\<close>

datatype json =
    JNull
  | JBool bool
  | JNum int
  | JStr string
  | JArr "json list"
  | JObj "(string \<times> json) list"

text \<open>JavaScript's truthiness, as \<open>if (x)\<close> and \<open>!x\<close> and \<open>||\<close> test it.\<close>

fun truthy :: "json \<Rightarrow> bool" where
  "truthy JNull = False"
| "truthy (JBool b) = b"
| "truthy (JNum n) = (n \<noteq> 0)"
| "truthy (JStr s) = (s \<noteq> [])"
| "truthy (JArr xs) = True"
| "truthy (JObj kvs) = True"

text \<open>An optional value: \<open>None\<close> is \<open>undefined\<close>, which is falsy.\<close>

fun truthyJ :: "json option \<Rightarrow> bool" where
  "truthyJ None = False"
| "truthyJ (Some v) = truthy v"

fun truthyS :: "string option \<Rightarrow> bool" where
  "truthyS None = False"
| "truthyS (Some s) = (s \<noteq> [])"

text \<open>Errors are values with a name and a message, as \<open>`${err}`\<close> prints them.\<close>

datatype js_error = Error string | TypeError string

fun message :: "js_error \<Rightarrow> string" where
  "message (Error m) = m"
| "message (TypeError m) = m"

fun error_to_string :: "js_error \<Rightarrow> string" where
  "error_to_string (Error m) = ''Error: '' @ m"
| "error_to_string (TypeError m) = ''TypeError: '' @ m"

text \<open>The state of a promise of type \<open>Promise<void>\<close>.\<close>

datatype promise = Pending | Resolved | Rejected js_error

fun is_rejected :: "promise \<Rightarrow> bool" where
  "is_rejected (Rejected e) = True"
| "is_rejected p = False"

subsection \<open>The report record\<close>

text \<open>
  A payload is a \<open>Record<string, any>\<close>. Its properties can hold JSON data, but also
  values that \<open>JSON.stringify\<close> refuses, such as a BigInt, and a property can be an
  accessor whose getter throws. TypeScript rules out a payload that is \<open>null\<close> or
  \<open>undefined\<close>; the functions are exported, so JavaScript callers can pass one.
\<close>

datatype js_value = Data json | BigInt int

datatype property = Value js_value | Getter js_error

datatype payload_object = Nullish | Properties "(string \<times> property) list"

text \<open>
  \<open>payload.language\<close>: reading a property of \<open>null\<close> or \<open>undefined\<close> throws a
  \<open>TypeError\<close>, a getter may throw, and a property that is not there is \<open>undefined\<close>.
\<close>

fun read_property :: "payload_object \<Rightarrow> string \<Rightarrow> js_error + js_value option" where
  "read_property Nullish key =
     Inl (TypeError (''Cannot read properties of undefined (reading '' @ key @ '')''))"
| "read_property (Properties ps) key =
     (case map_of ps key of
        None \<Rightarrow> Inr None
      | Some (Value v) \<Rightarrow> Inr (Some v)
      | Some (Getter err) \<Rightarrow> Inl err)"

text \<open>
  \<open>interface ReportParams\<close>. \<open>dateTime\<close> is a \<open>Date\<close>, kept as its time value; a
  \<open>Date\<close> object is always truthy. \<open>language\<close> is the value of \<open>payload.language\<close>;
  \<open>userId\<close> and \<open>projectId\<close> may be what \<open>jsonFile[key]\<close> holds, so the two are
  JSON values.
\<close>

record ReportParams =
  dateTime :: "nat option"
  arch :: "string option"
  os :: "string option"
  payload :: payload_object
  product :: string
  runID :: "string option"
  version :: "string option"
  command :: "string option"
  language :: "js_value option"
  userId :: "json option"
  ci :: "string option"
  projectId :: "json option"

subsection \<open>The host\<close>

text \<open>A file holds a JSON text, kept as the value it parses to, or something else.\<close>

datatype file_content = Unparsable | Parsed json

datatype header_value = HStr string | HNum nat

text \<open>
  What \<open>https.request\<close> is given and what is written to it. The body is a list of
  bytes: Node encodes the string passed to \<open>req.write\<close> as UTF-8.
\<close>

record request =
  req_url :: string
  req_method :: string
  req_headers :: "(string \<times> header_value) list"
  req_timeout :: nat
  req_body :: "nat list"

text \<open>
  What the network does to one request, as the events Node delivers: the response
  callback with \<open>res.statusCode\<close> and \<open>res.statusMessage\<close>, the events of the
  response, the timeout of the socket and the \<open>error\<close> event of the request.
\<close>

datatype event =
    Response "nat option" string
  | ResData
  | ResError js_error
  | ResEnd
  | Timeout
  | ReqError js_error

datatype log_entry = LoggerError string | ProcessLoggerError string

text \<open>
  \<open>files\<close>, \<open>require_cache\<close>, \<open>uuid_count\<close>, \<open>requests\<close> and \<open>logged\<close> change;
  the other fields are what the host answers. \<open>write_error p\<close> is the message of the
  error \<open>fs.writeFileSync\<close> throws at \<open>p\<close>, if it throws. \<open>ci_detect\<close> is the result
  of \<open>ciDetect()\<close>: \<open>None\<close> is \<open>false\<close>. \<open>versionNumber\<close> is what the call
  \<open>versionNumber()\<close> returns or throws. \<open>json_stringify rp\<close> is what
  \<open>JSON.stringify\<close> returns for the record or throws: the serialised record, a
  JavaScript string, is a list of UTF-16 code units, each below 65536. \<open>network n\<close> is
  what happens to the request number \<open>n\<close>.
\<close>

record world =
  files :: "string \<Rightarrow> file_content option"
  write_error :: "string \<Rightarrow> string option"
  require_cache :: "string \<Rightarrow> json option"
  uuid_source :: "nat \<Rightarrow> string"
  uuid_count :: nat
  clock :: nat
  os_arch :: string
  os_platform :: string
  os_homedir :: string
  process_cwd :: string
  env_CHECKPOINT_DISABLE :: "string option"
  ci_detect :: "string option"
  versionNumber :: "js_error + string"
  path_resolve :: "string list \<Rightarrow> string"
  url_format :: "string \<Rightarrow> string"
  json_stringify :: "ReportParams \<Rightarrow> js_error + nat list"
  network :: "nat \<Rightarrow> event list"
  requests :: "request list"
  logged :: "log_entry list"

subsection \<open>Host functions\<close>

text \<open>\<open>uuidv4()\<close>: the next identifier of the generator.\<close>

definition uuidv4 :: "world \<Rightarrow> string \<times> world" where
  "uuidv4 w = (uuid_source w (uuid_count w), w\<lparr>uuid_count := Suc (uuid_count w)\<rparr>)"

text \<open>
  \<open>require(filePath)\<close> on a JSON file: Node returns the module it has cached under the
  path, if any; otherwise it reads and parses the file, throws when that fails, and caches
  the value when it succeeds.
\<close>

definition require :: "string \<Rightarrow> world \<Rightarrow> (js_error + json) \<times> world" where
  "require filePath w =
     (case require_cache w filePath of
        Some v \<Rightarrow> (Inr v, w)
      | None \<Rightarrow>
          (case files w filePath of
             None \<Rightarrow> (Inl (Error (''Cannot find module '' @ filePath)), w)
           | Some Unparsable \<Rightarrow> (Inl (Error (''Unexpected token in JSON: '' @ filePath)), w)
           | Some (Parsed v) \<Rightarrow>
               (Inr v, w\<lparr>require_cache := (require_cache w)(filePath \<mapsto> v)\<rparr>)))"

text \<open>
  \<open>fs.writeFileSync(filePath, JSON.stringify(v, null, 2))\<close>: the file then parses to
  \<open>v\<close>, or the write throws and nothing changes.
\<close>

definition writeFileSync :: "string \<Rightarrow> json \<Rightarrow> world \<Rightarrow> (js_error + unit) \<times> world" where
  "writeFileSync filePath v w =
     (case write_error w filePath of
        Some m \<Rightarrow> (Inl (Error m), w)
      | None \<Rightarrow> (Inr (), w\<lparr>files := (files w)(filePath \<mapsto> Parsed v)\<rparr>))"

text \<open>\<open>s.replaceAll("\n", " ")\<close>.\<close>

definition replaceAll_newline :: "string \<Rightarrow> string" where
  "replaceAll_newline s = map (\<lambda>c. if c = CHR 0x0A then CHR '' '' else c) s"

text \<open>The decimal name of an index, for the properties of an array or a string.\<close>

fun show_nat :: "nat \<Rightarrow> string" where
  "show_nat n =
     (if n < 10 then [char_of (48 + n)]
      else show_nat (n div 10) @ [char_of (48 + n mod 10)])"

declare show_nat.simps [simp del]

text \<open>
  \<open>jsonFile[key]\<close>: reading a property of \<open>null\<close> throws a \<open>TypeError\<close>; an object
  gives its own property or \<open>undefined\<close>. The module reads the keys \<open>projectId\<close> and
  \<open>userId\<close> only, which no prototype, array or string defines, so the other values
  give \<open>undefined\<close>.
\<close>

fun get_property :: "json \<Rightarrow> string \<Rightarrow> js_error + json option" where
  "get_property JNull key = Inl (TypeError (''Cannot read properties of null (reading '' @ key @ '')''))"
| "get_property (JObj kvs) key = Inr (map_of kvs key)"
| "get_property v key = Inr None"

text \<open>\<open>{ ...jsonFile }\<close>: the own enumerable properties of the value.\<close>

fun spread :: "json \<Rightarrow> (string \<times> json) list" where
  "spread (JObj kvs) = kvs"
| "spread (JArr xs) = zip (map show_nat [0..<length xs]) xs"
| "spread (JStr s) = zip (map show_nat [0..<length s]) (map (\<lambda>c. JStr [c]) s)"
| "spread v = []"

subsection \<open>The identity store\<close>

text \<open>
  Lines 92 to 96: the object written when there is no file to start from. The comment
  is added when it is truthy; assigning \<open>key\<close> afterwards replaces a property of
  that name.
\<close>

definition new_idFile :: "string \<Rightarrow> string \<Rightarrow> string option \<Rightarrow> (string \<times> json) list" where
  "new_idFile key uuid explanatoryComment =
     AList.update key (JStr uuid)
       (case explanatoryComment of
          None \<Rightarrow> []
        | Some c \<Rightarrow> if c \<noteq> [] then AList.update ''//'' (JStr (replaceAll_newline c)) [] else [])"

text \<open>
  \<open>getId\<close>, lines 85 to 115. The identifier is generated and the fresh object is built
  before the file is looked at; \<open>require\<close> is inside the \<open>try\<close>, the property read
  and the two writes are not.
\<close>

definition getId :: "string \<Rightarrow> string \<Rightarrow> string option \<Rightarrow> world \<Rightarrow> (js_error + json) \<times> world" where
  "getId filePath key explanatoryComment w0 =
     (let (uuid, w1) = uuidv4 w0;
          idFile = new_idFile key uuid explanatoryComment
      in case require filePath w1 of
           (Inl e, w2) \<Rightarrow>
             (case writeFileSync filePath (JObj idFile) w2 of
                (Inl e', w3) \<Rightarrow> (Inl e', w3)
              | (Inr u, w3) \<Rightarrow> (Inr (JStr uuid), w3))
         | (Inr jsonFile, w2) \<Rightarrow>
             (let rewritten =
                    (case writeFileSync filePath
                            (JObj (AList.update key (JStr uuid) (spread jsonFile))) w2 of
                       (Inl e', w3) \<Rightarrow> (Inl e', w3)
                     | (Inr u, w3) \<Rightarrow> (Inr (JStr uuid), w3))
              in case get_property jsonFile key of
                   Inl e \<Rightarrow> (Inl e, w2)
                 | Inr None \<Rightarrow> rewritten
                 | Inr (Some v) \<Rightarrow> if truthy v then (Inr v, w2) else rewritten))"

text \<open>\<open>getProjectId(projectPath = process.cwd())\<close>.\<close>

definition getProjectId :: "string option \<Rightarrow> world \<Rightarrow> (js_error + json) \<times> world" where
  "getProjectId projectPath w =
     getId (path_resolve w [case projectPath of None \<Rightarrow> process_cwd w | Some p \<Rightarrow> p, ''cdktf.json''])
       ''projectId'' None w"

definition user_comment :: string where
  "user_comment =
     ''This signature is a randomly generated UUID used to anonymously differentiate users in telemetry data order to inform product direction. ''
     @ [CHR 0x0A] @
     ''This signature is random, it is not based on any personally identifiable information. ''
     @ [CHR 0x0A] @
     ''To create a new signature, you can simply delete this file at any time.''
     @ [CHR 0x0A] @
     ''See https://github.com/hashicorp/terraform-cdk/blob/main/docs/working-with-cdk-for-terraform/telemetry.md for more''
     @ [CHR 0x0A] @
     ''information on how to disable it.''"

definition getUserId :: "world \<Rightarrow> (js_error + json) \<times> world" where
  "getUserId w =
     getId (path_resolve w [os_homedir w, ''.cdktf'', ''config.json''])
       ''userId'' (Some user_comment) w"

subsection \<open>The transport\<close>

definition BASE_URL :: string where
  "BASE_URL = ''https://checkpoint-api.hashicorp.com/v1/''"

definition VALID_STATUS_CODES :: "nat list" where
  "VALID_STATUS_CODES = [200, 201]"

text \<open>
  The bytes Node writes for a string: its UTF-8 encoding. A surrogate pair is one code
  point of four bytes; a surrogate alone is written as U+FFFD.
\<close>

fun utf8_encode :: "nat list \<Rightarrow> nat list" where
  "utf8_encode [] = []"
| "utf8_encode (c # cs) =
     (if c < 0x80 then c # utf8_encode cs
      else if c < 0x800 then [0xC0 + c div 0x40, 0x80 + c mod 0x40] @ utf8_encode cs
      else if 0xD800 \<le> c \<and> c < 0xDC00 then
        (case cs of
           [] \<Rightarrow> [0xEF, 0xBF, 0xBD]
         | d # ds \<Rightarrow>
             if 0xDC00 \<le> d \<and> d < 0xE000 then
               (let cp = 0x10000 + (c - 0xD800) * 0x400 + (d - 0xDC00)
                in [0xF0 + cp div 0x40000, 0x80 + (cp div 0x1000) mod 0x40,
                    0x80 + (cp div 0x40) mod 0x40, 0x80 + cp mod 0x40] @ utf8_encode ds)
             else [0xEF, 0xBF, 0xBD] @ utf8_encode cs)
      else if 0xDC00 \<le> c \<and> c < 0xE000 then [0xEF, 0xBF, 0xBD] @ utf8_encode cs
      else [0xE0 + c div 0x1000, 0x80 + (c div 0x40) mod 0x40, 0x80 + c mod 0x40]
           @ utf8_encode cs)"

text \<open>
  The request \<open>post\<close> makes, lines 32 to 41 and 58 to 60: \<open>Content-Length\<close> is
  \<open>data.length\<close>, the number of UTF-16 code units of the string.
\<close>

definition post_request :: "world \<Rightarrow> string \<Rightarrow> nat list \<Rightarrow> request" where
  "post_request w url data =
     \<lparr>req_url = url_format w url,
      req_method = ''POST'',
      req_headers = [(''Accept'', HStr ''application/json''),
                     (''Content-Length'', HNum (length data)),
                     (''User-Agent'', HStr ''HashiCorp/cdktf-cli'')],
      req_timeout = 1000,
      req_body = utf8_encode data\<rparr>"

text \<open>
  The promise of \<open>post\<close> while the events arrive. \<open>res_listeners\<close> says that the
  response callback has registered its \<open>data\<close>, \<open>error\<close> and \<open>end\<close> listeners.
  \<open>req_destroyed\<close> says that the request has been destroyed or aborted by the module:
  no statement of \<open>post\<close> does that, so no event sets it.
\<close>

record post_state =
  settled :: promise
  res_listeners :: bool
  req_destroyed :: bool

definition post_start :: post_state where
  "post_start = \<lparr>settled = Pending, res_listeners = False, req_destroyed = False\<rparr>"

text \<open>\<open>ok()\<close> and \<open>ko(err)\<close>: a promise is settled once, later calls do nothing.\<close>

definition ok :: "post_state \<Rightarrow> post_state" where
  "ok st = (if settled st = Pending then st\<lparr>settled := Resolved\<rparr> else st)"

definition ko :: "js_error \<Rightarrow> post_state \<Rightarrow> post_state" where
  "ko err st = (if settled st = Pending then st\<lparr>settled := Rejected err\<rparr> else st)"

fun on_event :: "post_state \<Rightarrow> event \<Rightarrow> post_state" where
  "on_event st (Response statusCode statusMessage) =
     (case statusCode of
        None \<Rightarrow> st\<lparr>res_listeners := True\<rparr>
      | Some c \<Rightarrow>
          if c \<noteq> 0 \<and> c \<notin> set VALID_STATUS_CODES then ko (Error statusMessage) st
          else st\<lparr>res_listeners := True\<rparr>)"
| "on_event st ResData = st"
| "on_event st (ResError err) = (if res_listeners st then ko err st else st)"
| "on_event st ResEnd = (if res_listeners st then ok st else st)"
| "on_event st Timeout = ko (Error ''request timeout'') st"
| "on_event st (ReqError err) = ko err st"

definition post_run :: "event list \<Rightarrow> post_state" where
  "post_run evs = foldl on_event post_start evs"

text \<open>
  \<open>post\<close>: the request is made, and the promise is what the events of this request
  leave; \<open>Pending\<close> when none of them settles it.
\<close>

definition post :: "string \<Rightarrow> nat list \<Rightarrow> world \<Rightarrow> promise \<times> world" where
  "post url data w =
     (settled (post_run (network w (length (requests w)))),
      w\<lparr>requests := requests w @ [post_request w url data]\<rparr>)"

subsection \<open>Defaulting and the report pipeline\<close>

text \<open>Lines 139 to 141.\<close>

definition fill_runID :: "ReportParams \<Rightarrow> world \<Rightarrow> ReportParams \<times> world" where
  "fill_runID rp w =
     (if \<not> truthyS (runID rp)
      then (let (u, w') = uuidv4 w in (rp\<lparr>runID := Some u\<rparr>, w'))
      else (rp, w))"

text \<open>Lines 143 to 153.\<close>

definition fill_dateTime :: "ReportParams \<Rightarrow> world \<Rightarrow> ReportParams" where
  "fill_dateTime rp w = (if dateTime rp = None then rp\<lparr>dateTime := Some (clock w)\<rparr> else rp)"

definition fill_arch :: "ReportParams \<Rightarrow> world \<Rightarrow> ReportParams" where
  "fill_arch rp w = (if \<not> truthyS (arch rp) then rp\<lparr>arch := Some (os_arch w)\<rparr> else rp)"

definition fill_os :: "ReportParams \<Rightarrow> world \<Rightarrow> ReportParams" where
  "fill_os rp w = (if \<not> truthyS (os rp) then rp\<lparr>os := Some (os_platform w)\<rparr> else rp)"

text \<open>
  Lines 156 to 158, with \<open>detected\<close> the constant \<open>ci\<close> of line 155; an error of
  \<open>getUserId\<close> leaves the function.
\<close>

definition fill_userId :: "string option \<Rightarrow> ReportParams \<Rightarrow> world \<Rightarrow> (js_error + ReportParams) \<times> world" where
  "fill_userId detected rp w =
     (if \<not> truthyJ (userId rp) \<and> \<not> truthyS detected
      then (case getUserId w of
              (Inl e, w') \<Rightarrow> (Inl e, w')
            | (Inr v, w') \<Rightarrow> (Inr (rp\<lparr>userId := Some v\<rparr>), w'))
      else (Inr rp, w))"

text \<open>Lines 160 to 162.\<close>

definition set_ci :: "string option \<Rightarrow> ReportParams \<Rightarrow> ReportParams" where
  "set_ci detected rp = (if truthyS detected then rp\<lparr>ci := detected\<rparr> else rp)"

text \<open>Line 164: \<open>reportParams.projectId || getProjectId()\<close>.\<close>

definition fill_projectId :: "ReportParams \<Rightarrow> world \<Rightarrow> (js_error + ReportParams) \<times> world" where
  "fill_projectId rp w =
     (if truthyJ (projectId rp) then (Inr rp, w)
      else (case getProjectId None w of
              (Inl e, w') \<Rightarrow> (Inl e, w')
            | (Inr v, w') \<Rightarrow> (Inr (rp\<lparr>projectId := Some v\<rparr>), w')))"

text \<open>
  Lines 139 to 164 in their order. The record is changed in place, so when an identity
  call throws, the caller's record keeps the fields filled so far.
\<close>

definition defaulting :: "ReportParams \<Rightarrow> world \<Rightarrow> (js_error + unit) \<times> ReportParams \<times> world" where
  "defaulting rp w =
     (let (rp1, w1) = fill_runID rp w;
          rp2 = fill_dateTime rp1 w1;
          rp3 = fill_arch rp2 w1;
          rp4 = fill_os rp3 w1;
          detected = ci_detect w1
      in case fill_userId detected rp4 w1 of
           (Inl e, w2) \<Rightarrow> (Inl e, rp4, w2)
         | (Inr rp5, w2) \<Rightarrow>
             (let rp6 = set_ci detected rp5
              in case fill_projectId rp6 w2 of
                   (Inl e, w3) \<Rightarrow> (Inl e, rp6, w3)
                 | (Inr rp7, w3) \<Rightarrow> (Inr (), rp7, w3)))"

text \<open>
  \<open>ReportRequest\<close>, lines 133 to 174. The result is the promise the caller awaits, the
  caller's record as the call leaves it, and the world. Only the call of \<open>post\<close> is
  inside the \<open>try\<close>: an error of defaulting or of \<open>JSON.stringify\<close> rejects the
  promise.
\<close>

definition ReportRequest :: "ReportParams \<Rightarrow> world \<Rightarrow> promise \<times> ReportParams \<times> world" where
  "ReportRequest reportParams w =
     (if truthyS (env_CHECKPOINT_DISABLE w) then (Resolved, reportParams, w)
      else
        (case defaulting reportParams w of
           (Inl e, rp, w1) \<Rightarrow> (Rejected e, rp, w1)
         | (Inr u, rp, w1) \<Rightarrow>
             (case json_stringify w1 rp of
                Inl e \<Rightarrow> (Rejected e, rp, w1)
              | Inr postData \<Rightarrow>
                  (case post (BASE_URL @ ''telemetry/'' @ product rp) postData w1 of
                     (Rejected e, w2) \<Rightarrow>
                       (Resolved, rp,
                        w2\<lparr>logged := logged w2 @ [ProcessLoggerError (message e)]\<rparr>)
                   | (p, w2) \<Rightarrow> (p, rp, w2)))))"

text \<open>
  The record of lines 69 to 76, given the version, the time and the language that the
  initialisers of lines 72 to 74 have produced.
\<close>

definition telemetry_params ::
  "string \<Rightarrow> payload_object \<Rightarrow> string \<Rightarrow> nat \<Rightarrow> js_value option \<Rightarrow> ReportParams" where
  "telemetry_params cmd pl v now lang =
     \<lparr>dateTime = Some now, arch = None, os = None, payload = pl,
      product = ''cdktf'', runID = None, version = Some v,
      command = Some cmd, language = lang, userId = None,
      ci = None, projectId = None\<rparr>"

text \<open>
  \<open>sendTelemetry\<close>, lines 65 to 83. The record is built before the \<open>try\<close>: when
  \<open>versionNumber()\<close> or the read of \<open>payload.language\<close> throws, the promise of
  \<open>sendTelemetry\<close> is rejected. The \<open>try\<close> encloses the call of \<open>ReportRequest\<close>.
\<close>

definition sendTelemetry :: "string \<Rightarrow> payload_object \<Rightarrow> world \<Rightarrow> promise \<times> world" where
  "sendTelemetry cmd pl w =
     (case versionNumber w of
        Inl err \<Rightarrow> (Rejected err, w)
      | Inr v \<Rightarrow>
          (case read_property pl ''language'' of
             Inl err \<Rightarrow> (Rejected err, w)
           | Inr lang \<Rightarrow>
               (case ReportRequest (telemetry_params cmd pl v (clock w) lang) w of
                  (Rejected err, rp, w1) \<Rightarrow>
                    (Resolved,
                     w1\<lparr>logged := logged w1
                           @ [LoggerError (''Could not send telemetry data: ''
                                           @ error_to_string err)]\<rparr>)
                | (p, rp, w1) \<Rightarrow> (p, w1))))"

subsection \<open>Notions used in the statements\<close>

text \<open>
  The syntax of a version-4 UUID, as \<open>uuidv4()\<close> prints it: 8-4-4-4-12 hexadecimal
  digits, the version digit 4 and a variant digit among 8, 9, a, b.
\<close>

definition is_hex :: "char \<Rightarrow> bool" where
  "is_hex c = (c \<in> set ''0123456789abcdefABCDEF'')"

definition is_uuid_v4 :: "string \<Rightarrow> bool" where
  "is_uuid_v4 s =
     (length s = 36
      \<and> list_all is_hex (take 8 s) \<and> s ! 8 = CHR ''-''
      \<and> list_all is_hex (take 4 (drop 9 s)) \<and> s ! 13 = CHR ''-''
      \<and> s ! 14 = CHR ''4'' \<and> list_all is_hex (take 3 (drop 15 s)) \<and> s ! 18 = CHR ''-''
      \<and> s ! 19 \<in> set ''89abAB'' \<and> list_all is_hex (take 3 (drop 20 s)) \<and> s ! 23 = CHR ''-''
      \<and> list_all is_hex (drop 24 s))"

text \<open>
  Two worlds that differ at most in the files, the module cache and the number of
  identifiers generated: what the identity store and defaulting may change.
\<close>

definition same_host :: "world \<Rightarrow> world \<Rightarrow> bool" where
  "same_host w w' = (\<exists>f c n. w' = w\<lparr>files := f, require_cache := c, uuid_count := n\<rparr>)"


text \<open>The record after lines 139 to 153.\<close>

definition host_filled :: "ReportParams \<Rightarrow> world \<Rightarrow> ReportParams" where
  "host_filled rp w =
     rp\<lparr>runID := (if truthyS (runID rp) then runID rp else Some (uuid_source w (uuid_count w))),
        dateTime := (if dateTime rp = None then Some (clock w) else dateTime rp),
        arch := (if truthyS (arch rp) then arch rp else Some (os_arch w)),
        os := (if truthyS (os rp) then os rp else Some (os_platform w))\<rparr>"

text \<open>
  The failures of the transport: the error with which an event fails the request, if it
  does. A response fails it with its status message when its status code is truthy and
  outside the accepted set; an error of the response fails it when the response has been
  accepted, which is when the listeners are registered; the timeout and an error of the
  request always do.
\<close>

fun transport_failure :: "bool \<Rightarrow> event \<Rightarrow> js_error option" where
  "transport_failure accepted (Response statusCode statusMessage) =
     (case statusCode of
        None \<Rightarrow> None
      | Some c \<Rightarrow> if c = 0 \<or> c = 200 \<or> c = 201 then None else Some (Error statusMessage))"
| "transport_failure accepted ResData = None"
| "transport_failure accepted (ResError err) = (if accepted then Some err else None)"
| "transport_failure accepted ResEnd = None"
| "transport_failure accepted Timeout = Some (Error ''request timeout'')"
| "transport_failure accepted (ReqError err) = Some err"

subsection \<open>A concrete host\<close>

text \<open>
  A Linux machine outside CI with no identity file yet, where writes succeed and the
  server answers 200. The functions of the host that the module only passes values
  through are simple here: paths are joined with a slash and a URL is left as it is.
\<close>

fun ex_path_resolve :: "string list \<Rightarrow> string" where
  "ex_path_resolve [] = []"
| "ex_path_resolve [p] = p"
| "ex_path_resolve (p # ps) = p @ ''/'' @ ex_path_resolve ps"

definition ex_uuid :: "nat \<Rightarrow> string" where
  "ex_uuid n = (if n = 0 then ''1b9d6bcd-bbfd-4b2d-9b5d-ab8dfbbd4bed''
                else if n = 1 then ''6ec0bd7f-11c0-43da-975e-2a8ad9ebae0b''
                else ''109156be-c4fb-41ea-b1b4-efe1671c5836'')"

text \<open>
  The serialiser of the concrete host throws as \<open>JSON.stringify\<close> does, on a BigInt
  and when a getter throws, and otherwise gives the code units of the product name.
\<close>

fun ex_unserialisable :: "(string \<times> property) list \<Rightarrow> js_error option" where
  "ex_unserialisable [] = None"
| "ex_unserialisable ((k, Value (Data v)) # ps) = ex_unserialisable ps"
| "ex_unserialisable ((k, Value (BigInt n)) # ps) =
     Some (TypeError ''Do not know how to serialize a BigInt'')"
| "ex_unserialisable ((k, Getter err) # ps) = Some err"

definition ex_stringify :: "ReportParams \<Rightarrow> js_error + nat list" where
  "ex_stringify rp =
     (case language rp of
        Some (BigInt n) \<Rightarrow> Inl (TypeError ''Do not know how to serialize a BigInt'')
      | _ \<Rightarrow>
          (case payload rp of
             Nullish \<Rightarrow> Inr (map of_char (product rp))
           | Properties ps \<Rightarrow>
               (case ex_unserialisable ps of
                  Some err \<Rightarrow> Inl err
                | None \<Rightarrow> Inr (map of_char (product rp)))))"

definition ex_world :: world where
  "ex_world =
     \<lparr>files = (\<lambda>p. None), write_error = (\<lambda>p. None), require_cache = (\<lambda>p. None),
      uuid_source = ex_uuid, uuid_count = 0, clock = 1636000000000,
      os_arch = ''x64'', os_platform = ''linux'', os_homedir = ''/home/dev'',
      process_cwd = ''/work/app'', env_CHECKPOINT_DISABLE = None, ci_detect = None,
      versionNumber = Inr ''0.7.0'', path_resolve = ex_path_resolve, url_format = (\<lambda>u. u),
      json_stringify = ex_stringify,
      network = (\<lambda>n. [Response (Some 200) ''OK'', ResData, ResEnd]),
      requests = [], logged = []\<rparr>"

definition ex_payload :: payload_object where
  "ex_payload =
     Properties [(''language'', Value (Data (JStr ''typescript''))),
                 (''resources'', Value (Data (JNum 3)))]"

definition ex_params :: ReportParams where
  "ex_params =
     \<lparr>dateTime = None, arch = None, os = None, payload = ex_payload, product = ''cdktf'',
      runID = None, version = Some ''0.7.0'', command = Some ''diff'',
      language = Some (Data (JStr ''typescript'')), userId = None, ci = None,
      projectId = None\<rparr>"


text \<open>
  A payload with a BigInt, which \<open>JSON.stringify\<close> refuses, and a payload whose
  \<open>language\<close> is an accessor with a getter that throws.
\<close>

definition ex_payload_bigint :: payload_object where
  "ex_payload_bigint =
     Properties [(''language'', Value (Data (JStr ''typescript''))),
                 (''resources'', Value (BigInt 3))]"

definition ex_payload_getter :: payload_object where
  "ex_payload_getter =
     Properties [(''language'', Getter (Error ''language is not available'')),
                 (''resources'', Value (Data (JNum 3)))]"

text \<open>The same machine with the directory of the user's identity file missing.\<close>

definition ex_world_no_dir :: world where
  "ex_world_no_dir =
     ex_world\<lparr>write_error :=
       (\<lambda>p. if p = ''/home/dev/.cdktf/config.json''
            then Some ''ENOENT: no such file or directory, open /home/dev/.cdktf/config.json''
            else None)\<rparr>"

text \<open>The same machine inside a CI system, and with telemetry disabled.\<close>

definition ex_world_ci :: world where
  "ex_world_ci = ex_world\<lparr>ci_detect := Some ''travis-ci''\<rparr>"

definition ex_world_disabled :: world where
  "ex_world_disabled = ex_world\<lparr>env_CHECKPOINT_DISABLE := Some ''1''\<rparr>"


text \<open>
  The same machine with a network fault on the request, with a connection that is reset
  after a response with status 200 has begun, with no response until the timeout, and
  with a server that answers 200 and sends chunks without ever ending the response.
\<close>

definition ex_world_fault :: world where
  "ex_world_fault =
     ex_world\<lparr>network :=
       (\<lambda>n. [ReqError (Error ''getaddrinfo ENOTFOUND checkpoint-api.hashicorp.com'')])\<rparr>"

definition ex_world_reset :: world where
  "ex_world_reset =
     ex_world\<lparr>network :=
       (\<lambda>n. [Response (Some 200) ''OK'', ResData, ResError (Error ''aborted'')])\<rparr>"


definition ex_world_trickle :: world where
  "ex_world_trickle =
     ex_world\<lparr>network := (\<lambda>n. [Response (Some 200) ''OK'', ResData, ResData, ResData])\<rparr>"

text \<open>
  A project file that holds other fields and the key, and one whose \<open>projectId\<close> is
  the empty string.
\<close>

definition ex_project_file :: "(string \<times> json) list" where
  "ex_project_file =
     [(''language'', JStr ''typescript''), (''app'', JStr ''npm run --silent compile''),
      (''projectId'', JStr ''3f2504e0-4f89-41d3-9a0c-0305e82c3301'')]"

definition ex_world_project :: world where
  "ex_world_project =
     ex_world\<lparr>files := (\<lambda>p. if p = ''/work/app/cdktf.json'' then Some (Parsed (JObj ex_project_file))
                          else None)\<rparr>"

definition ex_empty_id_file :: "(string \<times> json) list" where
  "ex_empty_id_file = [(''language'', JStr ''typescript''), (''projectId'', JStr [])]"

definition ex_world_empty_id :: world where
  "ex_world_empty_id =
     ex_world\<lparr>files := (\<lambda>p. if p = ''/work/app/cdktf.json'' then Some (Parsed (JObj ex_empty_id_file))
                          else None)\<rparr>"

text \<open>
  A body with a letter outside ASCII: the code units of the object with the fields
  \<open>payload\<close>, holding the one field \<open>name\<close> with the value \<open>caf\<close> followed by
  the code unit 233, and \<open>product\<close> with the value \<open>cdktf\<close>. It has 45 code units
  and 46 bytes.
\<close>

definition ex_body :: "nat list" where
  "ex_body =
     [123, 34, 112, 97, 121, 108, 111, 97, 100, 34, 58, 123, 34, 110, 97, 109,
      101, 34, 58, 34, 99, 97, 102, 233, 34, 125, 44, 34, 112, 114, 111, 100,
      117, 99, 116, 34, 58, 34, 99, 100, 107, 116, 102, 34, 125]"

section \<open>The transport\<close>

lemma settled_on_event: "settled st \<noteq> Pending \<Longrightarrow> settled (on_event st ev) = settled st"
  by (cases ev) (auto simp: ok_def ko_def split: option.splits)

lemma settled_foldl: "settled st \<noteq> Pending \<Longrightarrow> settled (foldl on_event st evs) = settled st"
  by (induction evs arbitrary: st) (simp_all add: settled_on_event)

lemma post_run_append: "post_run (xs @ ys) = foldl on_event (post_run xs) ys"
  by (simp add: post_run_def)


lemma req_destroyed_on_event: "req_destroyed (on_event st ev) = req_destroyed st"
  by (cases ev) (auto simp: ok_def ko_def split: option.splits)

lemma req_destroyed_post_run: "\<not> req_destroyed (post_run evs)"
proof -
  have "req_destroyed (foldl on_event st evs) = req_destroyed st" for st
    by (induction evs arbitrary: st) (simp_all add: req_destroyed_on_event)
  then show ?thesis by (simp add: post_run_def post_start_def)
qed

text \<open>
  Claim C8, as far as it holds: \<open>post\<close> registers a timeout of 1000 ms on the request,
  and when the timeout fires while the promise is pending, whatever has happened before
  and whatever happens after, the promise is rejected with the error
  \<open>request timeout\<close>.
\<close>

theorem post_timeout_rejects:
  "settled (post_run pre) = Pending \<Longrightarrow>
   settled (post_run (pre @ Timeout # rest)) = Rejected (Error ''request timeout'')
   \<and> req_timeout (post_request w url data) = 1000"
  by (simp add: post_run_append settled_foldl ko_def post_request_def)

theorem post_timeout_rejects_witness:
  "settled (post_run [Response (Some 200) ''OK'', ResData]) = Pending
   \<and> settled (post_run ([Response (Some 200) ''OK'', ResData] @ Timeout # [ResEnd]))
       = Rejected (Error ''request timeout'')
   \<and> req_timeout (post_request ex_world (BASE_URL @ ''telemetry/cdktf'') ex_body) = 1000"
proof -
  have h: "settled (post_run [Response (Some 200) ''OK'', ResData]) = Pending"
    by (simp add: post_run_def post_start_def VALID_STATUS_CODES_def)
  show ?thesis
    using h post_timeout_rejects [OF h, of "[ResEnd]" ex_world "BASE_URL @ ''telemetry/cdktf''" ex_body]
    by simp
qed

text \<open>
  Claim C8 as the specification states it fails: the timeout callback only rejects the
  promise. After a timeout with no response the request has not been destroyed or
  aborted.
\<close>

theorem post_timeout_no_abort_counterexample:
  "settled (post_run [Timeout]) = Rejected (Error ''request timeout'')
   \<and> \<not> req_destroyed (post_run [Timeout])"
  by (simp add: post_run_def post_start_def ko_def)

text \<open>
  Claim C9 fails on a body with a character outside ASCII: for the body of 45 code units
  whose bytes are 46, the header \<open>Content-Length\<close> is 45.
\<close>

theorem post_content_length_non_ascii:
  "map_of (req_headers (post_request ex_world (BASE_URL @ ''telemetry/cdktf'') ex_body))
     ''Content-Length'' = Some (HNum 45)
   \<and> length (req_body (post_request ex_world (BASE_URL @ ''telemetry/cdktf'') ex_body)) = 46"
  by (simp add: post_request_def ex_body_def)

text \<open>On a body of ASCII characters the header is the number of bytes.\<close>

lemma utf8_encode_ascii: "list_all (\<lambda>c. c < 0x80) data \<Longrightarrow> utf8_encode data = data"
  by (induction data) simp_all

lemma post_content_length_ascii:
  "list_all (\<lambda>c. c < 0x80) data \<Longrightarrow>
   map_of (req_headers (post_request w url data)) ''Content-Length''
     = Some (HNum (length (req_body (post_request w url data))))"
  by (simp add: post_request_def utf8_encode_ascii)



section \<open>The disable flag\<close>

text \<open>
  Claim C2: when \<open>CHECKPOINT_DISABLE\<close> is set to a truthy value, \<open>ReportRequest\<close>
  resolves at once; the caller's record and the whole world are as before, so there is
  no request, no read or write of an identity file, no identifier generated and nothing
  logged.
\<close>

theorem ReportRequest_disabled:
  "truthyS (env_CHECKPOINT_DISABLE w) \<Longrightarrow> ReportRequest rp w = (Resolved, rp, w)"
  by (simp add: ReportRequest_def)

theorem ReportRequest_disabled_witness:
  "truthyS (env_CHECKPOINT_DISABLE ex_world_disabled)
   \<and> ReportRequest ex_params ex_world_disabled = (Resolved, ex_params, ex_world_disabled)
   \<and> requests ex_world_disabled = []"
proof -
  have h: "truthyS (env_CHECKPOINT_DISABLE ex_world_disabled)"
    by (simp add: ex_world_disabled_def ex_world_def)
  show ?thesis
    using h ReportRequest_disabled [OF h, of ex_params]
    by (simp add: ex_world_disabled_def ex_world_def)
qed

section \<open>The identity store\<close>

lemma is_uuid_v4_nonempty: "is_uuid_v4 s \<Longrightarrow> s \<noteq> []"
  by (auto simp: is_uuid_v4_def)

lemma map_of_new_idFile: "map_of (new_idFile key uuid c) key = Some (JStr uuid)"
  by (simp add: new_idFile_def update_conv')

lemma new_idFile_comment:
  "s \<noteq> [] \<Longrightarrow> key \<noteq> ''//'' \<Longrightarrow>
   map_of (new_idFile key uuid (Some s)) ''//'' = Some (JStr (replaceAll_newline s))"
  by (simp add: new_idFile_def update_conv')

lemma replaceAll_newline_none: "CHR 0x0A \<notin> set (replaceAll_newline s)"
  by (auto simp: replaceAll_newline_def)

text \<open>
  Claim C5, as far as it holds. When no module is cached for the path, the file is
  missing or does not parse, and the write succeeds, \<open>getId\<close> returns the identifier
  the generator gives, and the file then holds the fresh object: the key with that
  identifier, and the comment with its newlines replaced by spaces when one is given, is
  not empty and the key is not \<open>//\<close>. The identifier being a version-4 UUID, a second
  call with the same path and key, with any comment, returns it again and leaves the
  files as they are.
\<close>

theorem getId_creates:
  assumes "require_cache w filePath = None"
    and "files w filePath = None \<or> files w filePath = Some Unparsable"
    and "write_error w filePath = None"
    and "is_uuid_v4 (uuid_source w (uuid_count w))"
  shows "\<exists>w1 w2.
      getId filePath key c w = (Inr (JStr (uuid_source w (uuid_count w))), w1)
    \<and> files w1 = (files w)(filePath \<mapsto> Parsed (JObj (new_idFile key (uuid_source w (uuid_count w)) c)))
    \<and> map_of (new_idFile key (uuid_source w (uuid_count w)) c) key
        = Some (JStr (uuid_source w (uuid_count w)))
    \<and> (\<forall>s. c = Some s \<and> s \<noteq> [] \<and> key \<noteq> ''//'' \<longrightarrow>
          map_of (new_idFile key (uuid_source w (uuid_count w)) c) ''//''
            = Some (JStr (replaceAll_newline s))
          \<and> CHR 0x0A \<notin> set (replaceAll_newline s))
    \<and> getId filePath key c' w1 = (Inr (JStr (uuid_source w (uuid_count w))), w2)
    \<and> files w2 = files w1"
  using assms is_uuid_v4_nonempty [OF assms(4)]
  by (auto simp: getId_def uuidv4_def require_def writeFileSync_def Let_def map_of_new_idFile
        new_idFile_comment replaceAll_newline_none)

lemma ex_uuid_v4: "is_uuid_v4 (ex_uuid 0)"
  by (simp add: ex_uuid_def is_uuid_v4_def is_hex_def)

theorem getId_creates_witness:
  "require_cache ex_world ''/home/dev/.cdktf/config.json'' = None
   \<and> files ex_world ''/home/dev/.cdktf/config.json'' = None
   \<and> write_error ex_world ''/home/dev/.cdktf/config.json'' = None
   \<and> is_uuid_v4 (uuid_source ex_world (uuid_count ex_world))
   \<and> (\<exists>w1 w2.
        getId ''/home/dev/.cdktf/config.json'' ''userId'' (Some user_comment) ex_world
          = (Inr (JStr ''1b9d6bcd-bbfd-4b2d-9b5d-ab8dfbbd4bed''), w1)
        \<and> files w1 ''/home/dev/.cdktf/config.json''
            = Some (Parsed (JObj [(''//'', JStr (replaceAll_newline user_comment)),
                                  (''userId'', JStr ''1b9d6bcd-bbfd-4b2d-9b5d-ab8dfbbd4bed'')]))
        \<and> getId ''/home/dev/.cdktf/config.json'' ''userId'' (Some user_comment) w1
            = (Inr (JStr ''1b9d6bcd-bbfd-4b2d-9b5d-ab8dfbbd4bed''), w2))"
proof -
  have h1: "require_cache ex_world ''/home/dev/.cdktf/config.json'' = None"
    and h2: "files ex_world ''/home/dev/.cdktf/config.json'' = None"
    and h3: "write_error ex_world ''/home/dev/.cdktf/config.json'' = None"
    by (simp_all add: ex_world_def)
  have h4: "is_uuid_v4 (uuid_source ex_world (uuid_count ex_world))"
    using ex_uuid_v4 by (simp add: ex_world_def)
  have u: "uuid_source ex_world (uuid_count ex_world) = ''1b9d6bcd-bbfd-4b2d-9b5d-ab8dfbbd4bed''"
    by (simp add: ex_world_def ex_uuid_def)
  have c: "user_comment \<noteq> []"
    by (simp add: user_comment_def)
  have n: "new_idFile ''userId'' ''1b9d6bcd-bbfd-4b2d-9b5d-ab8dfbbd4bed'' (Some user_comment)
           = [(''//'', JStr (replaceAll_newline user_comment)),
              (''userId'', JStr ''1b9d6bcd-bbfd-4b2d-9b5d-ab8dfbbd4bed'')]"
    using c by (simp add: new_idFile_def)
  from getId_creates [OF h1 disjI1 [OF h2] h3 h4, of "''userId''" "Some user_comment" "Some user_comment"]
  obtain w1 w2 where
    "getId ''/home/dev/.cdktf/config.json'' ''userId'' (Some user_comment) ex_world
       = (Inr (JStr (uuid_source ex_world (uuid_count ex_world))), w1)"
    "files w1 = (files ex_world)(''/home/dev/.cdktf/config.json'' \<mapsto>
        Parsed (JObj (new_idFile ''userId'' (uuid_source ex_world (uuid_count ex_world)) (Some user_comment))))"
    "getId ''/home/dev/.cdktf/config.json'' ''userId'' (Some user_comment) w1
       = (Inr (JStr (uuid_source ex_world (uuid_count ex_world))), w2)"
    by blast
  then have "getId ''/home/dev/.cdktf/config.json'' ''userId'' (Some user_comment) ex_world
          = (Inr (JStr ''1b9d6bcd-bbfd-4b2d-9b5d-ab8dfbbd4bed''), w1)
        \<and> files w1 ''/home/dev/.cdktf/config.json''
            = Some (Parsed (JObj [(''//'', JStr (replaceAll_newline user_comment)),
                                  (''userId'', JStr ''1b9d6bcd-bbfd-4b2d-9b5d-ab8dfbbd4bed'')]))
        \<and> getId ''/home/dev/.cdktf/config.json'' ''userId'' (Some user_comment) w1
            = (Inr (JStr ''1b9d6bcd-bbfd-4b2d-9b5d-ab8dfbbd4bed''), w2)"
    by (simp add: u n)
  then show ?thesis using h1 h2 h3 h4 by blast
qed

text \<open>
  Claim C5 as the specification states it fails where the write fails: with the
  directory of the user's file missing, the file does not exist, \<open>getId\<close> throws the
  error of the write, and there is still no file.
\<close>

theorem getId_write_fails_counterexample:
  "files ex_world_no_dir ''/home/dev/.cdktf/config.json'' = None
   \<and> fst (getId ''/home/dev/.cdktf/config.json'' ''userId'' (Some user_comment) ex_world_no_dir)
       = Inl (Error ''ENOENT: no such file or directory, open /home/dev/.cdktf/config.json'')
   \<and> files (snd (getId ''/home/dev/.cdktf/config.json'' ''userId'' (Some user_comment) ex_world_no_dir))
        ''/home/dev/.cdktf/config.json'' = None"
  by (simp add: getId_def uuidv4_def require_def writeFileSync_def Let_def
        ex_world_no_dir_def ex_world_def)

text \<open>
  Claim C6, as far as it holds. When no module is cached for the path and the file parses
  to an object whose property \<open>key\<close> is truthy, \<open>getId\<close> returns that value; the
  world afterwards differs in the count of generated identifiers and in the module
  cache only, so no file is written and no comment is added.
\<close>

theorem getId_existing:
  assumes "require_cache w filePath = None"
    and "files w filePath = Some (Parsed (JObj kvs))"
    and "map_of kvs key = Some v"
    and "truthy v"
  shows "getId filePath key c w =
           (Inr v, w\<lparr>uuid_count := Suc (uuid_count w),
                     require_cache := (require_cache w)(filePath \<mapsto> JObj kvs)\<rparr>)
         \<and> files (snd (getId filePath key c w)) = files w"
  using assms
  by (simp add: getId_def uuidv4_def require_def writeFileSync_def Let_def)

theorem getId_existing_witness:
  "require_cache ex_world_project ''/work/app/cdktf.json'' = None
   \<and> files ex_world_project ''/work/app/cdktf.json'' = Some (Parsed (JObj ex_project_file))
   \<and> map_of ex_project_file ''projectId'' = Some (JStr ''3f2504e0-4f89-41d3-9a0c-0305e82c3301'')
   \<and> truthy (JStr ''3f2504e0-4f89-41d3-9a0c-0305e82c3301'')
   \<and> fst (getId ''/work/app/cdktf.json'' ''projectId'' (Some user_comment) ex_world_project)
       = Inr (JStr ''3f2504e0-4f89-41d3-9a0c-0305e82c3301'')
   \<and> files (snd (getId ''/work/app/cdktf.json'' ''projectId'' (Some user_comment) ex_world_project))
       = files ex_world_project"
proof -
  have h1: "require_cache ex_world_project ''/work/app/cdktf.json'' = None"
    and h2: "files ex_world_project ''/work/app/cdktf.json'' = Some (Parsed (JObj ex_project_file))"
    by (simp_all add: ex_world_project_def ex_world_def)
  have h3: "map_of ex_project_file ''projectId'' = Some (JStr ''3f2504e0-4f89-41d3-9a0c-0305e82c3301'')"
    by (simp add: ex_project_file_def)
  have h4: "truthy (JStr ''3f2504e0-4f89-41d3-9a0c-0305e82c3301'')"
    by simp
  show ?thesis
    using h1 h2 h3 h4 getId_existing [OF h1 h2 h3 h4, of "Some user_comment"]
    by simp
qed

text \<open>
  Claim C6 as the specification states it fails on a key that is there with a falsy
  value: the project file holds \<open>projectId\<close> with the empty string, and \<open>getId\<close>
  returns a new identifier and rewrites the file.
\<close>

theorem getId_falsy_value_counterexample:
  "files ex_world_empty_id ''/work/app/cdktf.json''
     = Some (Parsed (JObj [(''language'', JStr ''typescript''), (''projectId'', JStr [])]))
   \<and> fst (getId ''/work/app/cdktf.json'' ''projectId'' None ex_world_empty_id)
       = Inr (JStr ''1b9d6bcd-bbfd-4b2d-9b5d-ab8dfbbd4bed'')
   \<and> files (snd (getId ''/work/app/cdktf.json'' ''projectId'' None ex_world_empty_id))
        ''/work/app/cdktf.json''
       = Some (Parsed (JObj [(''language'', JStr ''typescript''),
                             (''projectId'', JStr ''1b9d6bcd-bbfd-4b2d-9b5d-ab8dfbbd4bed'')]))"
  by (simp add: getId_def uuidv4_def require_def writeFileSync_def Let_def
        ex_world_empty_id_def ex_empty_id_file_def ex_world_def ex_uuid_def)

text \<open>
  The module cache also matters to the claims C5 and C6. \<open>require\<close> keeps the object
  it has loaded, so when a file that lacks the key is given one by \<open>getId\<close>, a second
  call in the same process still sees the object without the key: it returns another
  identifier and writes the file again, although the file holds the key by then.
\<close>

lemma getId_stale_cache:
  "fst (getId ''/work/app/cdktf.json'' ''projectId'' None
          (ex_world\<lparr>files := (\<lambda>p. if p = ''/work/app/cdktf.json''
                                 then Some (Parsed (JObj [(''language'', JStr ''typescript'')]))
                                 else None)\<rparr>))
     = Inr (JStr ''1b9d6bcd-bbfd-4b2d-9b5d-ab8dfbbd4bed'')
   \<and> fst (getId ''/work/app/cdktf.json'' ''projectId'' None
            (snd (getId ''/work/app/cdktf.json'' ''projectId'' None
                    (ex_world\<lparr>files := (\<lambda>p. if p = ''/work/app/cdktf.json''
                                           then Some (Parsed (JObj [(''language'', JStr ''typescript'')]))
                                           else None)\<rparr>))))
     = Inr (JStr ''6ec0bd7f-11c0-43da-975e-2a8ad9ebae0b'')"
  by (simp add: getId_def uuidv4_def require_def writeFileSync_def Let_def ex_world_def ex_uuid_def)

section \<open>What the identity store and defaulting leave alone\<close>

lemma same_host_refl: "same_host w w"
  unfolding same_host_def
  by (rule exI [of _ "files w"], rule exI [of _ "require_cache w"], rule exI [of _ "uuid_count w"]) simp

lemma same_host_trans: "same_host a b \<Longrightarrow> same_host b c \<Longrightarrow> same_host a c"
  unfolding same_host_def by (elim exE, simp, intro exI, rule refl)

lemma same_host_fields:
  assumes "same_host w w'"
  shows "write_error w' = write_error w" "uuid_source w' = uuid_source w" "clock w' = clock w"
    "os_arch w' = os_arch w" "os_platform w' = os_platform w" "os_homedir w' = os_homedir w"
    "process_cwd w' = process_cwd w" "env_CHECKPOINT_DISABLE w' = env_CHECKPOINT_DISABLE w"
    "ci_detect w' = ci_detect w" "versionNumber w' = versionNumber w" "path_resolve w' = path_resolve w"
    "url_format w' = url_format w" "json_stringify w' = json_stringify w" "network w' = network w"
    "requests w' = requests w" "logged w' = logged w"
  using assms unfolding same_host_def by auto

lemma uuidv4_same_host: "same_host w (snd (uuidv4 w))"
  unfolding same_host_def uuidv4_def
  by (rule exI [of _ "files w"], rule exI [of _ "require_cache w"], rule exI [of _ "Suc (uuid_count w)"]) simp

lemma require_same_host: "same_host w (snd (require p w))"
proof (cases "require_cache w p")
  case (Some v)
  then show ?thesis by (simp add: require_def same_host_refl)
next
  case None
  note cache = this
  show ?thesis
  proof (cases "files w p")
    case None
    with cache show ?thesis by (simp add: require_def same_host_refl)
  next
    case (Some fc)
    show ?thesis
    proof (cases fc)
      case Unparsable
      with Some cache show ?thesis by (simp add: require_def same_host_refl)
    next
      case (Parsed v)
      with Some cache show ?thesis
        unfolding same_host_def require_def
        by (simp, intro exI [of _ "files w"] exI [of _ "(require_cache w)(p \<mapsto> v)"]
              exI [of _ "uuid_count w"]) simp
    qed
  qed
qed

lemma writeFileSync_same_host: "same_host w (snd (writeFileSync p v w))"
proof (cases "write_error w p")
  case None
  then show ?thesis
    unfolding same_host_def writeFileSync_def
    by (simp, intro exI [of _ "(files w)(p \<mapsto> Parsed v)"] exI [of _ "require_cache w"]
          exI [of _ "uuid_count w"]) simp
next
  case (Some m)
  then show ?thesis by (simp add: writeFileSync_def same_host_refl)
qed

lemma write_result_same_host:
  "same_host w (snd (case writeFileSync p v w of
                       (Inl e', w3) \<Rightarrow> (Inl e', w3)
                     | (Inr u, w3) \<Rightarrow> (Inr (x::json), w3)))"
  using writeFileSync_same_host [of w p v]
  by (cases "writeFileSync p v w") (auto split: sum.splits)

lemma getId_same_host_snd: "same_host w (snd (getId p k c w))"
proof -
  obtain u w1 where u: "uuidv4 w = (u, w1)" by (cases "uuidv4 w")
  have h1: "same_host w w1" using uuidv4_same_host [of w] u by simp
  obtain r w2 where r: "require p w1 = (r, w2)" by (cases "require p w1")
  have h2: "same_host w1 w2" using require_same_host [of w1 p] r by simp
  have h12: "same_host w w2" using h1 h2 by (rule same_host_trans)
  have tail: "same_host w (snd (case writeFileSync p v w2 of
                                   (Inl e', w3) \<Rightarrow> (Inl e', w3)
                                 | (Inr u, w3) \<Rightarrow> (Inr (x::json), w3)))" for v x
    using h12 write_result_same_host same_host_trans by blast
  show ?thesis
    using u r h12 tail
    by (simp add: getId_def Let_def split: sum.split option.split)
qed

lemma getId_same_host: "getId p k c w = (r, w') \<Longrightarrow> same_host w w'"
  using getId_same_host_snd [of w p k c] by simp

text \<open>What \<open>getId\<close> returns is truthy when the generated identifier is not empty.\<close>

lemma getId_truthy:
  assumes "getId p k c w = (Inr v, w')" and "uuid_source w (uuid_count w) \<noteq> []"
  shows "truthy v"
proof -
  obtain r w2 where r: "require p (snd (uuidv4 w)) = (r, w2)" by (cases "require p (snd (uuidv4 w))")
  show ?thesis
    using assms r
    by (auto simp: getId_def uuidv4_def Let_def
        split: sum.splits option.splits prod.splits if_splits)
qed

section \<open>Defaulting\<close>

lemma fill_runID_eq:
  "fill_runID rp w =
     (rp\<lparr>runID := (if truthyS (runID rp) then runID rp else Some (uuid_source w (uuid_count w)))\<rparr>,
      w\<lparr>uuid_count := (if truthyS (runID rp) then uuid_count w else Suc (uuid_count w))\<rparr>)"
  by (simp add: fill_runID_def uuidv4_def)

lemma fill_runID_same_host: "same_host w (snd (fill_runID rp w))"
  using uuidv4_same_host [of w]
  by (simp add: fill_runID_def split_beta same_host_refl)

lemma set_ci_eq:
  "set_ci d rp = rp\<lparr>ci := (if truthyS d then d else ci rp)\<rparr>"
  by (simp add: set_ci_def)

lemma fill_userId_same_host: "fill_userId d rp w = (r, w') \<Longrightarrow> same_host w w'"
  by (auto simp: fill_userId_def getUserId_def same_host_refl
      split: if_splits prod.splits sum.splits dest: getId_same_host)

lemma fill_projectId_same_host: "fill_projectId rp w = (r, w') \<Longrightarrow> same_host w w'"
  by (auto simp: fill_projectId_def getProjectId_def same_host_refl
      split: if_splits prod.splits sum.splits dest: getId_same_host)

lemma truthyJ_Some: "truthyJ x \<Longrightarrow> \<exists>y. x = Some y"
  by (cases x) simp_all

lemma fill_userId_Inr:
  assumes "fill_userId d rp w = (Inr rp', w')"
  shows "rp' = rp\<lparr>userId := userId rp'\<rparr>"
    and "truthyS d \<Longrightarrow> userId rp' = userId rp"
    and "\<not> truthyS d \<Longrightarrow> userId rp' \<noteq> None"
    and "truthyJ (userId rp) \<or> truthyS d \<Longrightarrow> rp' = rp \<and> w' = w"
    and "uuid_source w (uuid_count w) \<noteq> [] \<Longrightarrow> \<not> truthyS d \<Longrightarrow> truthyJ (userId rp')"
  using assms
  by (auto simp: fill_userId_def getUserId_def split: if_splits prod.splits sum.splits
      dest: getId_truthy truthyJ_Some)

lemma fill_projectId_Inr:
  assumes "fill_projectId rp w = (Inr rp', w')"
  shows "rp' = rp\<lparr>projectId := projectId rp'\<rparr>"
    and "truthyJ (projectId rp) \<Longrightarrow> rp' = rp \<and> w' = w"
    and "uuid_source w (uuid_count w) \<noteq> [] \<Longrightarrow> truthyJ (projectId rp')"
  using assms
  by (auto simp: fill_projectId_def getProjectId_def split: if_splits prod.splits sum.splits
      dest: getId_truthy)

lemma host_filled_eq:
  "fill_runID rp w = (rp1, w1) \<Longrightarrow>
   fill_os (fill_arch (fill_dateTime rp1 w1) w1) w1 = host_filled rp w"
  by (auto simp: fill_runID_eq fill_dateTime_def fill_arch_def fill_os_def host_filled_def)

lemma defaulting_unfold:
  "defaulting rp w =
     (case fill_userId (ci_detect w) (host_filled rp w) (snd (fill_runID rp w)) of
        (Inl e, w2) \<Rightarrow> (Inl e, host_filled rp w, w2)
      | (Inr rp5, w2) \<Rightarrow>
          (case fill_projectId (set_ci (ci_detect w) rp5) w2 of
             (Inl e, w3) \<Rightarrow> (Inl e, set_ci (ci_detect w) rp5, w3)
           | (Inr rp7, w3) \<Rightarrow> (Inr (), rp7, w3)))"
proof -
  obtain rp1 w1 where a: "fill_runID rp w = (rp1, w1)" by (cases "fill_runID rp w")
  note hf = host_filled_eq [OF a]
  have cd: "ci_detect w1 = ci_detect w"
    using same_host_fields(9) [OF fill_runID_same_host [of w rp]] a by simp
  obtain r w2 where b: "fill_userId (ci_detect w) (host_filled rp w) w1 = (r, w2)"
    by (cases "fill_userId (ci_detect w) (host_filled rp w) w1")
  show ?thesis
  proof (cases r)
    case (Inl e)
    then show ?thesis using a b hf cd by (simp add: defaulting_def Let_def)
  next
    case (Inr rp5)
    obtain r' w3 where c: "fill_projectId (set_ci (ci_detect w) rp5) w2 = (r', w3)"
      by (cases "fill_projectId (set_ci (ci_detect w) rp5) w2")
    show ?thesis using a b c hf cd Inr by (cases r') (simp_all add: defaulting_def Let_def)
  qed
qed

lemma defaulting_same_host:
  assumes "defaulting rp w = (r, rp', w')"
  shows "same_host w w'"
proof -
  obtain r5 w2 where b: "fill_userId (ci_detect w) (host_filled rp w) (snd (fill_runID rp w)) = (r5, w2)"
    by (cases "fill_userId (ci_detect w) (host_filled rp w) (snd (fill_runID rp w))")
  have h2: "same_host w w2"
    using fill_runID_same_host [of w rp] fill_userId_same_host [OF b] by (rule same_host_trans)
  show ?thesis
  proof (cases r5)
    case (Inl e)
    with assms b h2 show ?thesis by (simp add: defaulting_unfold)
  next
    case (Inr rp5)
    obtain r7 w3 where c: "fill_projectId (set_ci (ci_detect w) rp5) w2 = (r7, w3)"
      by (cases "fill_projectId (set_ci (ci_detect w) rp5) w2")
    have h3: "same_host w w3"
      using h2 fill_projectId_same_host [OF c] by (rule same_host_trans)
    from assms b c Inr h3 show ?thesis
      by (cases r7) (simp_all add: defaulting_unfold)
  qed
qed

lemma defaulting_host_fields:
  assumes "defaulting rp w = (r, rp', w')"
  shows "\<exists>u c p. rp' = (host_filled rp w)\<lparr>userId := u, ci := c, projectId := p\<rparr>"
proof -
  let ?h = "host_filled rp w"
  have same: "?h = ?h\<lparr>userId := userId ?h, ci := ci ?h, projectId := projectId ?h\<rparr>"
    by simp
  obtain r5 w2 where b: "fill_userId (ci_detect w) ?h (snd (fill_runID rp w)) = (r5, w2)"
    by (cases "fill_userId (ci_detect w) ?h (snd (fill_runID rp w))")
  show ?thesis
  proof (cases r5)
    case (Inl e)
    with assms b have "rp' = ?h" by (simp add: defaulting_unfold)
    with same show ?thesis by metis
  next
    case (Inr rp5)
    define a where "a = userId rp5"
    have u: "rp5 = ?h\<lparr>userId := a\<rparr>"
      unfolding a_def using b Inr by (intro fill_userId_Inr(1)) simp
    have s6: "set_ci (ci_detect w) rp5 = ?h\<lparr>userId := a, ci := ci (set_ci (ci_detect w) rp5), projectId := projectId ?h\<rparr>"
      by (simp add: u set_ci_eq)
    obtain r7 w3 where c: "fill_projectId (set_ci (ci_detect w) rp5) w2 = (r7, w3)"
      by (cases "fill_projectId (set_ci (ci_detect w) rp5) w2")
    show ?thesis
    proof (cases r7)
      case (Inl e)
      with assms b c Inr have "rp' = set_ci (ci_detect w) rp5" by (simp add: defaulting_unfold)
      with s6 show ?thesis by metis
    next
      case (Inr rp7)
      define q where "q = projectId rp7"
      have "rp7 = (set_ci (ci_detect w) rp5)\<lparr>projectId := q\<rparr>"
        unfolding q_def using c Inr by (intro fill_projectId_Inr(1)) simp
      then have "rp7 = ?h\<lparr>userId := a, ci := ci (set_ci (ci_detect w) rp5), projectId := q\<rparr>"
        by (simp add: u set_ci_eq)
      moreover from assms b c Inr \<open>r5 = Inr rp5\<close> have "rp' = rp7" by (simp add: defaulting_unfold)
      ultimately show ?thesis by metis
    qed
  qed
qed

lemma defaulting_Inr_userId_ci:
  assumes "defaulting rp w = (Inr (), rp', w')"
  shows "ci rp' = (if truthyS (ci_detect w) then ci_detect w else ci rp)"
    and "truthyS (ci_detect w) \<Longrightarrow> userId rp' = userId rp"
    and "\<not> truthyS (ci_detect w) \<Longrightarrow> userId rp' \<noteq> None"
    and "(\<forall>n. uuid_source w n \<noteq> []) \<Longrightarrow> truthyJ (userId rp') \<or> truthyS (ci_detect w)"
    and "(\<forall>n. uuid_source w n \<noteq> []) \<Longrightarrow> truthyJ (projectId rp')"
proof -
  let ?h = "host_filled rp w" and ?w1 = "snd (fill_runID rp w)"
  obtain r5 w2 where b: "fill_userId (ci_detect w) ?h ?w1 = (r5, w2)"
    by (cases "fill_userId (ci_detect w) ?h ?w1")
  from assms b obtain rp5 where r5: "r5 = Inr rp5"
    by (cases r5) (simp_all add: defaulting_unfold)
  obtain r7 w3 where c: "fill_projectId (set_ci (ci_detect w) rp5) w2 = (r7, w3)"
    by (cases "fill_projectId (set_ci (ci_detect w) rp5) w2")
  from assms b c r5 have r7: "r7 = Inr rp'"
    by (cases r7) (simp_all add: defaulting_unfold)
  have w1: "same_host w ?w1" by (rule fill_runID_same_host)
  have w2: "same_host w w2" using w1 fill_userId_same_host [OF b] by (rule same_host_trans)
  note b' = b [unfolded r5] and c' = c [unfolded r7]
  define q where "q = projectId rp'"
  have p: "rp' = (set_ci (ci_detect w) rp5)\<lparr>projectId := q\<rparr>"
    unfolding q_def by (rule fill_projectId_Inr(1) [OF c'])
  have ci: "ci rp' = ci (set_ci (ci_detect w) rp5)" and uid: "userId rp' = userId rp5"
    by (simp_all add: p set_ci_eq)
  define a where "a = userId rp5"
  have u: "rp5 = ?h\<lparr>userId := a\<rparr>"
    unfolding a_def by (rule fill_userId_Inr(1) [OF b'])
  have ci5: "ci rp5 = ci rp" by (simp add: u host_filled_def)
  have uh: "userId ?h = userId rp" by (simp add: host_filled_def)
  show "ci rp' = (if truthyS (ci_detect w) then ci_detect w else ci rp)"
    by (simp add: ci set_ci_eq ci5 same_host_fields(9) [OF w2])
  show "userId rp' = userId rp" if "truthyS (ci_detect w)"
    using fill_userId_Inr(2) [OF b'] that uh by (simp add: uid same_host_fields(9) [OF w1])
  show "userId rp' \<noteq> None" if "\<not> truthyS (ci_detect w)"
    using fill_userId_Inr(3) [OF b'] that by (simp add: uid same_host_fields(9) [OF w1])
  show "truthyJ (userId rp') \<or> truthyS (ci_detect w)" if "\<forall>n. uuid_source w n \<noteq> []"
    using fill_userId_Inr(5) [OF b'] that
    by (auto simp: uid same_host_fields(9) [OF w1] same_host_fields(2) [OF w1])
  show "truthyJ (projectId rp')" if "\<forall>n. uuid_source w n \<noteq> []"
    using fill_projectId_Inr(3) [OF c'] that
    by (simp add: same_host_fields(2) [OF w2])
qed





section \<open>The report pipeline\<close>

lemma post_request_same_host: "same_host w w' \<Longrightarrow> post_request w' url data = post_request w url data"
  by (simp add: post_request_def same_host_fields(12))

lemma defaulting_product: "defaulting rp w = (r, rp1, w1) \<Longrightarrow> product rp1 = product rp"
  by (drule defaulting_host_fields) (auto simp: host_filled_def)

text \<open>
  An event that is a failure of the transport rejects a pending promise with its error,
  and no other event rejects it.
\<close>

lemma on_event_failure:
  "settled st = Pending \<Longrightarrow> transport_failure (res_listeners st) ev = Some e \<Longrightarrow>
   settled (on_event st ev) = Rejected e"
  by (cases ev) (auto simp: ko_def VALID_STATUS_CODES_def split: option.splits if_splits)

lemma on_event_no_failure:
  "settled st = Pending \<Longrightarrow> transport_failure (res_listeners st) ev = None \<Longrightarrow>
   \<not> is_rejected (settled (on_event st ev))"
  by (cases ev) (auto simp: ok_def ko_def VALID_STATUS_CODES_def split: option.splits if_splits)

lemma post_run_failure:
  "settled (post_run pre) = Pending \<Longrightarrow>
   transport_failure (res_listeners (post_run pre)) ev = Some e \<Longrightarrow>
   settled (post_run (pre @ ev # rest)) = Rejected e"
  by (simp add: post_run_append on_event_failure settled_foldl)

lemma ReportRequest_after_defaulting:
  assumes "\<not> truthyS (env_CHECKPOINT_DISABLE w)" and "defaulting rp w = (Inr (), rp1, w1)"
    and "json_stringify w rp1 = Inr data"
  shows "ReportRequest rp w =
    (case settled (post_run (network w (length (requests w)))) of
       Rejected e \<Rightarrow>
         (Resolved, rp1,
          w1\<lparr>requests := requests w @ [post_request w (BASE_URL @ ''telemetry/'' @ product rp1) data],
             logged := logged w @ [ProcessLoggerError (message e)]\<rparr>)
     | Pending \<Rightarrow>
         (Pending, rp1,
          w1\<lparr>requests := requests w @ [post_request w (BASE_URL @ ''telemetry/'' @ product rp1) data]\<rparr>)
     | Resolved \<Rightarrow>
         (Resolved, rp1,
          w1\<lparr>requests := requests w @ [post_request w (BASE_URL @ ''telemetry/'' @ product rp1) data]\<rparr>))"
proof -
  have sh: "same_host w w1" using assms(2) by (rule defaulting_same_host)
  show ?thesis
    using assms
    by (simp add: ReportRequest_def post_def same_host_fields [OF sh]
          post_request_same_host [OF sh] split: promise.split)
qed

lemma ReportRequest_defaulting_fails:
  "\<not> truthyS (env_CHECKPOINT_DISABLE w) \<Longrightarrow> defaulting rp w = (Inl e, rp1, w1) \<Longrightarrow>
   ReportRequest rp w = (Rejected e, rp1, w1)"
  by (simp add: ReportRequest_def)

lemma ReportRequest_stringify_fails:
  assumes "\<not> truthyS (env_CHECKPOINT_DISABLE w)" and "defaulting rp w = (Inr (), rp1, w1)"
    and "json_stringify w rp1 = Inl e"
  shows "ReportRequest rp w = (Rejected e, rp1, w1)"
proof -
  have sh: "same_host w w1" using assms(2) by (rule defaulting_same_host)
  show ?thesis
    using assms by (simp add: ReportRequest_def same_host_fields [OF sh])
qed

lemma defaulting_result: "\<exists>r rp1 w1. defaulting rp w = (r, rp1, w1)"
  by (cases "defaulting rp w") auto

text \<open>
  Claim C1, as far as it holds, for a call that is not disabled and not rejected. When a
  CI system is detected, \<open>ci\<close> is its name and \<open>userId\<close> is what the caller
  supplied; when none is detected, \<open>ci\<close> is what the caller supplied and \<open>userId\<close>
  is set. So when the caller supplied neither, the two are never both set. The record
  these fields are read from is the one that is serialised and sent.
\<close>

theorem ReportRequest_userId_ci:
  assumes "\<not> truthyS (env_CHECKPOINT_DISABLE w)"
    and "ReportRequest rp w = (p, rp', w')"
    and "\<not> is_rejected p"
  shows "(truthyS (ci_detect w) \<longrightarrow> ci rp' = ci_detect w \<and> userId rp' = userId rp)
       \<and> (\<not> truthyS (ci_detect w) \<longrightarrow> ci rp' = ci rp \<and> userId rp' \<noteq> None)
       \<and> (userId rp = None \<and> ci rp = None \<longrightarrow> userId rp' = None \<or> ci rp' = None)
       \<and> (\<exists>data. json_stringify w rp' = Inr data
            \<and> requests w' = requests w @ [post_request w (BASE_URL @ ''telemetry/'' @ product rp')
                                             data])"
proof -
  obtain r rp1 w1 where d: "defaulting rp w = (r, rp1, w1)"
    using defaulting_result by blast
  have r: "r = Inr ()"
  proof (cases r)
    case (Inl e)
    with assms d show ?thesis by (auto simp: ReportRequest_defaulting_fails)
  next
    case (Inr u)
    then show ?thesis by simp
  qed
  note d' = d [unfolded r]
  obtain data where s: "json_stringify w rp1 = Inr data"
  proof (cases "json_stringify w rp1")
    case (Inl e)
    with assms d' show ?thesis by (auto simp: ReportRequest_stringify_fails)
  next
    case (Inr data)
    then show ?thesis by (rule that)
  qed
  have rp1: "rp' = rp1"
    and reqs: "requests w' = requests w @ [post_request w (BASE_URL @ ''telemetry/'' @ product rp1)
                                        data]"
    using assms(2) ReportRequest_after_defaulting [OF assms(1) d' s]
    by (auto split: promise.splits)
  note f = defaulting_Inr_userId_ci(1-3) [OF d']
  show ?thesis
    using f reqs s by (auto simp: rp1)
qed

lemmas pipeline_defs =
  ReportRequest_def defaulting_def fill_runID_def fill_dateTime_def fill_arch_def fill_os_def
  fill_userId_def set_ci_def fill_projectId_def getUserId_def getProjectId_def getId_def
  uuidv4_def require_def writeFileSync_def post_def post_run_def post_start_def ok_def ko_def
  VALID_STATUS_CODES_def ex_stringify_def ex_payload_def Let_def

theorem ReportRequest_userId_ci_witness:
  "\<not> truthyS (env_CHECKPOINT_DISABLE ex_world_ci)
   \<and> \<not> is_rejected (fst (ReportRequest ex_params ex_world_ci))
   \<and> userId ex_params = None \<and> ci ex_params = None
   \<and> ci (fst (snd (ReportRequest ex_params ex_world_ci))) = Some ''travis-ci''
   \<and> userId (fst (snd (ReportRequest ex_params ex_world_ci))) = None"
proof -
  obtain p rp' w' where R: "ReportRequest ex_params ex_world_ci = (p, rp', w')"
    by (cases "ReportRequest ex_params ex_world_ci")
  have h: "\<not> truthyS (env_CHECKPOINT_DISABLE ex_world_ci)"
    by (simp add: ex_world_ci_def ex_world_def)
  have "fst (ReportRequest ex_params ex_world_ci) = Resolved"
    by (simp add: pipeline_defs ex_world_ci_def ex_world_def ex_params_def)
  with R have nr: "\<not> is_rejected p" by simp
  have c: "ci_detect ex_world_ci = Some ''travis-ci''"
    by (simp add: ex_world_ci_def ex_world_def)
  have e: "userId ex_params = None" "ci ex_params = None"
    by (simp_all add: ex_params_def)
  show ?thesis
    using h nr e ReportRequest_userId_ci [OF h R nr] by (simp add: R c)
qed

text \<open>
  Claim C1 as the specification states it fails on a record with a \<open>userId\<close> from
  the caller when a CI system is detected: the call resolves, and the record it has
  serialised holds both the caller's \<open>userId\<close> and \<open>ci\<close>.
\<close>

theorem ReportRequest_userId_and_ci_counterexample:
  "fst (ReportRequest (ex_params\<lparr>userId := Some (JStr ''e4eaaaf2-d142-41b3-97c5-e5a1d7a6c3f2'')\<rparr>)
          ex_world_ci) = Resolved
   \<and> userId (fst (snd (ReportRequest
          (ex_params\<lparr>userId := Some (JStr ''e4eaaaf2-d142-41b3-97c5-e5a1d7a6c3f2'')\<rparr>) ex_world_ci)))
       = Some (JStr ''e4eaaaf2-d142-41b3-97c5-e5a1d7a6c3f2'')
   \<and> ci (fst (snd (ReportRequest
          (ex_params\<lparr>userId := Some (JStr ''e4eaaaf2-d142-41b3-97c5-e5a1d7a6c3f2'')\<rparr>) ex_world_ci)))
       = Some ''travis-ci''"
  by (simp add: pipeline_defs ex_world_ci_def ex_world_def ex_params_def)





section \<open>The entry point\<close>

lemma telemetry_params_fields:
  "product (telemetry_params cmd pl v now lang) = ''cdktf''"
  "command (telemetry_params cmd pl v now lang) = Some cmd"
  "version (telemetry_params cmd pl v now lang) = Some v"
  "language (telemetry_params cmd pl v now lang) = lang"
  "payload (telemetry_params cmd pl v now lang) = pl"
  by (simp_all add: telemetry_params_def)

lemma sendTelemetry_built:
  assumes "versionNumber w = Inr v" and "read_property pl ''language'' = Inr lang"
  shows "sendTelemetry cmd pl w =
    (case ReportRequest (telemetry_params cmd pl v (clock w) lang) w of
       (Rejected err, rp, w1) \<Rightarrow>
         (Resolved,
          w1\<lparr>logged := logged w1
                @ [LoggerError (''Could not send telemetry data: '' @ error_to_string err)]\<rparr>)
     | (Pending, rp, w1) \<Rightarrow> (Pending, w1)
     | (Resolved, rp, w1) \<Rightarrow> (Resolved, w1))"
  using assms by (simp add: sendTelemetry_def split: prod.split promise.split)

text \<open>
  Claim C3, as far as it holds, for a call whose record can be built: \<open>versionNumber()\<close>
  returns and \<open>payload.language\<close> can be read. \<open>sendTelemetry\<close> is then never
  rejected. When telemetry is disabled it resolves and nothing changes. An error that
  rejects \<open>ReportRequest\<close>, from an identity call of defaulting or from
  \<open>JSON.stringify\<close>, is caught by \<open>sendTelemetry\<close>, which resolves, and goes to
  \<open>logger.error\<close>, once. Otherwise the one request is made to the address of the
  product \<open>cdktf\<close>, and \<open>sendTelemetry\<close> is pending while no event settles the
  promise of \<open>post\<close> and resolved once one does; every failure of the transport that
  reaches the pending promise is caught inside \<open>ReportRequest\<close>, its message goes to
  \<open>processLoggerError\<close>, once, and \<open>sendTelemetry\<close> resolves.
\<close>

theorem sendTelemetry_catches_pipeline_failures:
  assumes "versionNumber w = Inr v" and "read_property pl ''language'' = Inr lang"
  shows "\<not> is_rejected (fst (sendTelemetry cmd pl w))
   \<and> (truthyS (env_CHECKPOINT_DISABLE w) \<longrightarrow> sendTelemetry cmd pl w = (Resolved, w))
   \<and> (\<not> truthyS (env_CHECKPOINT_DISABLE w) \<longrightarrow>
        (\<forall>e rp1 w1. defaulting (telemetry_params cmd pl v (clock w) lang) w = (Inl e, rp1, w1) \<longrightarrow>
           sendTelemetry cmd pl w =
             (Resolved,
              w1\<lparr>logged := logged w
                    @ [LoggerError (''Could not send telemetry data: '' @ error_to_string e)]\<rparr>))
      \<and> (\<forall>e rp1 w1. defaulting (telemetry_params cmd pl v (clock w) lang) w = (Inr (), rp1, w1)
             \<and> json_stringify w rp1 = Inl e \<longrightarrow>
           sendTelemetry cmd pl w =
             (Resolved,
              w1\<lparr>logged := logged w
                    @ [LoggerError (''Could not send telemetry data: '' @ error_to_string e)]\<rparr>))
      \<and> (\<forall>rp1 w1 data. defaulting (telemetry_params cmd pl v (clock w) lang) w = (Inr (), rp1, w1)
             \<and> json_stringify w rp1 = Inr data \<longrightarrow>
           fst (sendTelemetry cmd pl w)
             = (if settled (post_run (network w (length (requests w)))) = Pending
                then Pending else Resolved)
         \<and> requests (snd (sendTelemetry cmd pl w))
             = requests w @ [post_request w (BASE_URL @ ''telemetry/cdktf'') data]
         \<and> (\<forall>pre ev rest e.
               network w (length (requests w)) = pre @ ev # rest
               \<and> settled (post_run pre) = Pending
               \<and> transport_failure (res_listeners (post_run pre)) ev = Some e \<longrightarrow>
               sendTelemetry cmd pl w =
                 (Resolved,
                  w1\<lparr>requests := requests w @ [post_request w (BASE_URL @ ''telemetry/cdktf'') data],
                     logged := logged w @ [ProcessLoggerError (message e)]\<rparr>))))"
proof -
  let ?rp = "telemetry_params cmd pl v (clock w) lang"
  note S = sendTelemetry_built [OF assms, of cmd]
  have off: "sendTelemetry cmd pl w = (Resolved, w)" if "truthyS (env_CHECKPOINT_DISABLE w)"
    using that by (simp add: S ReportRequest_def)
  have fails: "sendTelemetry cmd pl w =
          (Resolved,
           w1\<lparr>logged := logged w
                 @ [LoggerError (''Could not send telemetry data: '' @ error_to_string e)]\<rparr>)"
    if "\<not> truthyS (env_CHECKPOINT_DISABLE w)" "defaulting ?rp w = (Inl e, rp1, w1)" for e rp1 w1
    using ReportRequest_defaulting_fails [OF that]
      same_host_fields(16) [OF defaulting_same_host [OF that(2)]]
    by (simp add: S)
  have unserialisable: "sendTelemetry cmd pl w =
          (Resolved,
           w1\<lparr>logged := logged w
                 @ [LoggerError (''Could not send telemetry data: '' @ error_to_string e)]\<rparr>)"
    if "\<not> truthyS (env_CHECKPOINT_DISABLE w)" "defaulting ?rp w = (Inr (), rp1, w1)"
      "json_stringify w rp1 = Inl e" for e rp1 w1
    using ReportRequest_stringify_fails [OF that]
      same_host_fields(16) [OF defaulting_same_host [OF that(2)]]
    by (simp add: S)
  have sends: "sendTelemetry cmd pl w =
          (case settled (post_run (network w (length (requests w)))) of
             Rejected e \<Rightarrow>
               (Resolved,
                w1\<lparr>requests := requests w @ [post_request w (BASE_URL @ ''telemetry/cdktf'') data],
                   logged := logged w @ [ProcessLoggerError (message e)]\<rparr>)
           | Pending \<Rightarrow>
               (Pending,
                w1\<lparr>requests := requests w @ [post_request w (BASE_URL @ ''telemetry/cdktf'') data]\<rparr>)
           | Resolved \<Rightarrow>
               (Resolved,
                w1\<lparr>requests := requests w @ [post_request w (BASE_URL @ ''telemetry/cdktf'') data]\<rparr>))"
    if "\<not> truthyS (env_CHECKPOINT_DISABLE w)" "defaulting ?rp w = (Inr (), rp1, w1)"
      "json_stringify w rp1 = Inr data" for rp1 w1 data
    using ReportRequest_after_defaulting [OF that] defaulting_product [OF that(2)]
    by (simp add: S telemetry_params_fields split: promise.split)
  obtain r rp1 w1 where d: "defaulting ?rp w = (r, rp1, w1)"
    using defaulting_result by blast
  have never: "\<not> is_rejected (fst (sendTelemetry cmd pl w))"
  proof (cases "truthyS (env_CHECKPOINT_DISABLE w)")
    case True
    then show ?thesis by (simp add: off)
  next
    case False
    show ?thesis
    proof (cases r)
      case (Inl e)
      with d False show ?thesis by (simp add: fails)
    next
      case (Inr u)
      show ?thesis
      proof (cases "json_stringify w rp1")
        case (Inl e)
        with d False Inr show ?thesis by (simp add: unserialisable)
      next
        case (Inr data)
        with d False \<open>r = Inr u\<close> show ?thesis by (simp add: sends split: promise.split)
      qed
    qed
  qed
  have sent: "fst (sendTelemetry cmd pl w)
             = (if settled (post_run (network w (length (requests w)))) = Pending
                then Pending else Resolved)
         \<and> requests (snd (sendTelemetry cmd pl w))
             = requests w @ [post_request w (BASE_URL @ ''telemetry/cdktf'') data]"
    if "\<not> truthyS (env_CHECKPOINT_DISABLE w)" "defaulting ?rp w = (Inr (), rp1, w1)"
      "json_stringify w rp1 = Inr data" for rp1 w1 data
    by (simp add: sends [OF that] split: promise.split)
  have caught: "sendTelemetry cmd pl w =
                 (Resolved,
                  w1\<lparr>requests := requests w @ [post_request w (BASE_URL @ ''telemetry/cdktf'') data],
                     logged := logged w @ [ProcessLoggerError (message e)]\<rparr>)"
    if "\<not> truthyS (env_CHECKPOINT_DISABLE w)" "defaulting ?rp w = (Inr (), rp1, w1)"
      "json_stringify w rp1 = Inr data"
      "network w (length (requests w)) = pre @ ev # rest"
      "settled (post_run pre) = Pending"
      "transport_failure (res_listeners (post_run pre)) ev = Some e"
    for rp1 w1 data pre ev rest e
  proof -
    have "settled (post_run (network w (length (requests w)))) = Rejected e"
      using that(4-6) by (simp add: post_run_failure)
    then show ?thesis by (simp add: sends [OF that(1-3)])
  qed
  show ?thesis
    using never off fails unserialisable sent caught by blast
qed

text \<open>
  On the concrete host outside CI, with whatever network, defaulting succeeds on the
  record that \<open>sendTelemetry\<close> builds and leaves the payload and the language alone.
\<close>

lemma ex_defaulting_telemetry:
  assumes "w = ex_world\<lparr>network := net\<rparr>"
  shows "\<exists>rp1 w1. defaulting (telemetry_params ''diff'' pl ''0.7.0'' (clock w) lang) w = (Inr (), rp1, w1)
           \<and> json_stringify w rp1 = ex_stringify rp1
           \<and> payload rp1 = pl \<and> language rp1 = lang \<and> product rp1 = ''cdktf''
           \<and> logged w1 = []"
proof -
  let ?rp = "telemetry_params ''diff'' pl ''0.7.0'' (clock w) lang"
  obtain r rp1 w1 where d: "defaulting ?rp w = (r, rp1, w1)"
    using defaulting_result by blast
  have "fst (defaulting ?rp w) = Inr ()"
    and "payload (fst (snd (defaulting ?rp w))) = pl"
    and "language (fst (snd (defaulting ?rp w))) = lang"
    and "product (fst (snd (defaulting ?rp w))) = ''cdktf''"
    and "logged (snd (snd (defaulting ?rp w))) = []"
    and "json_stringify w = ex_stringify"
    unfolding assms
    by (simp_all add: defaulting_def fill_runID_def fill_dateTime_def fill_arch_def fill_os_def
          fill_userId_def set_ci_def fill_projectId_def getUserId_def getProjectId_def getId_def
          uuidv4_def require_def writeFileSync_def Let_def telemetry_params_def ex_world_def)
  with d show ?thesis by simp
qed

theorem sendTelemetry_catches_pipeline_failures_witness:
  "versionNumber ex_world = Inr ''0.7.0''
   \<and> read_property ex_payload ''language'' = Inr (Some (Data (JStr ''typescript'')))
   \<and> read_property ex_payload_bigint ''language'' = Inr (Some (Data (JStr ''typescript'')))
   \<and> sendTelemetry ''diff'' ex_payload ex_world_disabled = (Resolved, ex_world_disabled)
   \<and> fst (sendTelemetry ''diff'' ex_payload ex_world) = Resolved
   \<and> map req_url (requests (snd (sendTelemetry ''diff'' ex_payload ex_world)))
       = [''https://checkpoint-api.hashicorp.com/v1/telemetry/cdktf'']
   \<and> fst (sendTelemetry ''diff'' ex_payload ex_world_no_dir) = Resolved
   \<and> logged (snd (sendTelemetry ''diff'' ex_payload ex_world_no_dir))
       = [LoggerError (''Could not send telemetry data: Error: ENOENT: no such file or directory, ''
                       @ ''open /home/dev/.cdktf/config.json'')]
   \<and> fst (sendTelemetry ''diff'' ex_payload_bigint ex_world) = Resolved
   \<and> logged (snd (sendTelemetry ''diff'' ex_payload_bigint ex_world))
       = [LoggerError (''Could not send telemetry data: ''
                       @ ''TypeError: Do not know how to serialize a BigInt'')]
   \<and> fst (sendTelemetry ''diff'' ex_payload ex_world_fault) = Resolved
   \<and> logged (snd (sendTelemetry ''diff'' ex_payload ex_world_fault))
       = [ProcessLoggerError ''getaddrinfo ENOTFOUND checkpoint-api.hashicorp.com'']
   \<and> fst (sendTelemetry ''diff'' ex_payload ex_world_reset) = Resolved
   \<and> logged (snd (sendTelemetry ''diff'' ex_payload ex_world_reset)) = [ProcessLoggerError ''aborted'']"
proof -
  let ?lang = "Some (Data (JStr ''typescript''))"
  have v: "versionNumber w = Inr ''0.7.0''" and c: "clock w = clock ex_world"
    and en: "\<not> truthyS (env_CHECKPOINT_DISABLE w)" and l: "logged w = []" and q: "requests w = []"
    if "w = ex_world\<lparr>network := net\<rparr>" for w net
    using that by (simp_all add: ex_world_def)
  have w0: "ex_world = ex_world\<lparr>network := network ex_world\<rparr>" by simp
  have rl: "read_property ex_payload ''language'' = Inr ?lang"
    and rb: "read_property ex_payload_bigint ''language'' = Inr ?lang"
    by (simp_all add: ex_payload_def ex_payload_bigint_def)
  have vd: "versionNumber ex_world_disabled = Inr ''0.7.0''"
    and ed: "truthyS (env_CHECKPOINT_DISABLE ex_world_disabled)"
    by (simp_all add: ex_world_disabled_def ex_world_def)
  have a: "sendTelemetry ''diff'' ex_payload ex_world_disabled = (Resolved, ex_world_disabled)"
    using sendTelemetry_catches_pipeline_failures [OF vd rl, of "''diff''"] ed by blast
  from ex_defaulting_telemetry [OF w0, of ex_payload ?lang] obtain rp1 w1
    where d: "defaulting (telemetry_params ''diff'' ex_payload ''0.7.0'' (clock ex_world) ?lang) ex_world
                = (Inr (), rp1, w1)"
      and s: "json_stringify ex_world rp1 = ex_stringify rp1"
      and f: "payload rp1 = ex_payload" "language rp1 = ?lang" "product rp1 = ''cdktf''"
    by blast
  have s': "json_stringify ex_world rp1 = Inr (map of_char ''cdktf'')"
    by (simp add: s ex_stringify_def f ex_payload_def)
  have n: "settled (post_run (network ex_world (length (requests ex_world)))) = Resolved"
    by (simp add: ex_world_def post_run_def post_start_def ok_def VALID_STATUS_CODES_def)
  have b: "fst (sendTelemetry ''diff'' ex_payload ex_world) = Resolved
     \<and> map req_url (requests (snd (sendTelemetry ''diff'' ex_payload ex_world)))
         = [''https://checkpoint-api.hashicorp.com/v1/telemetry/cdktf'']"
    using sendTelemetry_catches_pipeline_failures [OF v [OF w0] rl, of "''diff''"]
      en [OF w0] d s' n
    by (simp add: q [OF w0] post_request_def BASE_URL_def ex_world_def)
  have vn: "versionNumber ex_world_no_dir = Inr ''0.7.0''"
    and cn: "clock ex_world_no_dir = clock ex_world"
    and enn: "\<not> truthyS (env_CHECKPOINT_DISABLE ex_world_no_dir)"
    and ln: "logged ex_world_no_dir = []"
    by (simp_all add: ex_world_no_dir_def ex_world_def)
  obtain r2 rp2 w2
    where d2: "defaulting (telemetry_params ''diff'' ex_payload ''0.7.0'' (clock ex_world_no_dir) ?lang)
                 ex_world_no_dir = (r2, rp2, w2)"
    using defaulting_result by blast
  have "fst (defaulting (telemetry_params ''diff'' ex_payload ''0.7.0'' (clock ex_world_no_dir) ?lang)
               ex_world_no_dir)
          = Inl (Error ''ENOENT: no such file or directory, open /home/dev/.cdktf/config.json'')"
    by (simp add: pipeline_defs telemetry_params_def ex_world_no_dir_def ex_world_def)
  with d2 have r2: "r2 = Inl (Error ''ENOENT: no such file or directory, open /home/dev/.cdktf/config.json'')"
    by simp
  have c3: "fst (sendTelemetry ''diff'' ex_payload ex_world_no_dir) = Resolved
     \<and> logged (snd (sendTelemetry ''diff'' ex_payload ex_world_no_dir))
       = [LoggerError (''Could not send telemetry data: Error: ENOENT: no such file or directory, ''
                       @ ''open /home/dev/.cdktf/config.json'')]"
    using sendTelemetry_catches_pipeline_failures [OF vn rl, of "''diff''"] enn d2 [unfolded r2]
    by (simp add: ln)
  from ex_defaulting_telemetry [OF w0, of ex_payload_bigint ?lang] obtain rp4 w4
    where d4: "defaulting (telemetry_params ''diff'' ex_payload_bigint ''0.7.0'' (clock ex_world) ?lang)
                 ex_world = (Inr (), rp4, w4)"
      and s4: "json_stringify ex_world rp4 = ex_stringify rp4"
      and f4: "payload rp4 = ex_payload_bigint" "language rp4 = ?lang"
    by blast
  have s4': "json_stringify ex_world rp4 = Inl (TypeError ''Do not know how to serialize a BigInt'')"
    by (simp add: s4 ex_stringify_def f4 ex_payload_bigint_def)
  have c4: "fst (sendTelemetry ''diff'' ex_payload_bigint ex_world) = Resolved
     \<and> logged (snd (sendTelemetry ''diff'' ex_payload_bigint ex_world))
       = [LoggerError (''Could not send telemetry data: ''
                       @ ''TypeError: Do not know how to serialize a BigInt'')]"
    using sendTelemetry_catches_pipeline_failures [OF v [OF w0] rb, of "''diff''"]
      en [OF w0] d4 s4'
    by (simp add: l [OF w0])
  have caught: "fst (sendTelemetry ''diff'' ex_payload w) = Resolved
      \<and> logged (snd (sendTelemetry ''diff'' ex_payload w)) = [ProcessLoggerError (message e)]"
    if w: "w = ex_world\<lparr>network := net\<rparr>" and nn: "net 0 = pre @ ev # rest"
      and p: "settled (post_run pre) = Pending"
      and tf: "transport_failure (res_listeners (post_run pre)) ev = Some e"
    for w net pre ev rest e
  proof -
    from ex_defaulting_telemetry [OF w, of ex_payload ?lang] obtain rp5 w5
      where d5: "defaulting (telemetry_params ''diff'' ex_payload ''0.7.0'' (clock w) ?lang) w
                   = (Inr (), rp5, w5)"
        and s5: "json_stringify w rp5 = ex_stringify rp5"
        and f5: "payload rp5 = ex_payload" "language rp5 = ?lang" "product rp5 = ''cdktf''"
      by blast
    have s5': "json_stringify w rp5 = Inr (map of_char ''cdktf'')"
      by (simp add: s5 ex_stringify_def f5 ex_payload_def)
    have n': "network w (length (requests w)) = pre @ ev # rest"
      using nn by (simp add: w ex_world_def)
    from sendTelemetry_catches_pipeline_failures [OF v [OF w] rl, of "''diff''"]
      en [OF w] d5 s5' n' p tf
    have "sendTelemetry ''diff'' ex_payload w =
            (Resolved,
             w5\<lparr>requests := requests w @ [post_request w (BASE_URL @ ''telemetry/cdktf'')
                                            (map of_char ''cdktf'')],
                logged := logged w @ [ProcessLoggerError (message e)]\<rparr>)"
      by blast
    then show ?thesis by (simp add: l [OF w])
  qed
  have p0: "settled (post_run []) = Pending"
    and p2: "settled (post_run [Response (Some 200) ''OK'', ResData]) = Pending"
    and t0: "transport_failure (res_listeners (post_run []))
               (ReqError (Error ''getaddrinfo ENOTFOUND checkpoint-api.hashicorp.com''))
             = Some (Error ''getaddrinfo ENOTFOUND checkpoint-api.hashicorp.com'')"
    and t2: "transport_failure (res_listeners (post_run [Response (Some 200) ''OK'', ResData]))
               (ResError (Error ''aborted'')) = Some (Error ''aborted'')"
    by (simp_all add: post_run_def post_start_def VALID_STATUS_CODES_def)
  have c5: "fst (sendTelemetry ''diff'' ex_payload ex_world_fault) = Resolved
     \<and> logged (snd (sendTelemetry ''diff'' ex_payload ex_world_fault))
       = [ProcessLoggerError ''getaddrinfo ENOTFOUND checkpoint-api.hashicorp.com'']"
    using caught [OF ex_world_fault_def _ p0 t0, of "[]"] by simp
  have c6: "fst (sendTelemetry ''diff'' ex_payload ex_world_reset) = Resolved
     \<and> logged (snd (sendTelemetry ''diff'' ex_payload ex_world_reset)) = [ProcessLoggerError ''aborted'']"
    using caught [OF ex_world_reset_def _ p2 t2, of "[]"] by simp
  show ?thesis
    using v [OF w0] rl rb a b c3 c4 c5 c6 by simp
qed

text \<open>
  Claim C3 as the specification states it fails in two ways. A payload whose
  \<open>language\<close> is an accessor with a getter that throws makes line 74 throw before the
  \<open>try\<close> is entered: \<open>sendTelemetry\<close> is rejected with that error and nothing is
  logged. And with a server that answers 200 and sends chunks without ending the
  response, no event settles the promise of \<open>post\<close>: \<open>sendTelemetry\<close> is pending,
  not resolved.
\<close>

theorem sendTelemetry_not_resolved_counterexample:
  "fst (sendTelemetry ''diff'' ex_payload_getter ex_world) = Rejected (Error ''language is not available'')
   \<and> logged (snd (sendTelemetry ''diff'' ex_payload_getter ex_world)) = []
   \<and> fst (sendTelemetry ''diff'' ex_payload ex_world_trickle) = Pending"
  by (simp add: sendTelemetry_def telemetry_params_def pipeline_defs ex_payload_getter_def
        ex_world_trickle_def ex_world_def)

text \<open>
  The record is built before the \<open>try\<close>, whatever the host: an error of
  \<open>versionNumber()\<close>, a payload that is \<open>null\<close> or \<open>undefined\<close> and a getter of
  \<open>language\<close> that throws all reject \<open>sendTelemetry\<close>, and nothing else happens.
\<close>

lemma sendTelemetry_build_fails:
  "versionNumber w = Inl e \<Longrightarrow> sendTelemetry cmd pl w = (Rejected e, w)"
  "versionNumber w = Inr v \<Longrightarrow> read_property pl ''language'' = Inl e \<Longrightarrow>
   sendTelemetry cmd pl w = (Rejected e, w)"
  "versionNumber w = Inr v \<Longrightarrow> is_rejected (fst (sendTelemetry cmd Nullish w))"
  by (simp_all add: sendTelemetry_def)

end
